theory Spec2Isabelle
  imports Main
begin

section \<open>The dropdown directive of src/dropdown/dropdown.ts\<close>

text \<open>
  The development embeds the class \<open>NgbDropdown\<close> and its two helper directives
  \<open>NgbDropdownMenu\<close> and \<open>NgbDropdownAnchor\<close>. Every method of the class is a
  function from the component's state to a completion: the state after a normal
  return, or the state at the moment a \<open>TypeError\<close> is raised by reading a member
  of \<open>undefined\<close> or by calling \<open>undefined\<close>. A raised error keeps the
  assignments made before it, as it does in JavaScript.
\<close>

subsection \<open>Values\<close>

type_synonym node = nat

text \<open>
  \<open>Placement\<close> is declared in \<open>../util/positioning\<close>; the values are those listed
  in the documentation comment of the \<open>placement\<close> input (lines 135 to 138).
\<close>

datatype placement =
    Top | TopLeft | TopRight
  | Bottom | BottomLeft | BottomRight
  | Left | LeftTop | LeftBottom
  | Right | RightTop | RightBottom

fun placement_name :: "placement \<Rightarrow> string" where
  "placement_name Top = ''top''"
| "placement_name TopLeft = ''top-left''"
| "placement_name TopRight = ''top-right''"
| "placement_name Bottom = ''bottom''"
| "placement_name BottomLeft = ''bottom-left''"
| "placement_name BottomRight = ''bottom-right''"
| "placement_name Left = ''left''"
| "placement_name LeftTop = ''left-top''"
| "placement_name LeftBottom = ''left-bottom''"
| "placement_name Right = ''right''"
| "placement_name RightTop = ''right-top''"
| "placement_name RightBottom = ''right-bottom''"

text \<open>\<open>PlacementArray\<close>: one placement or an array of placements.\<close>

datatype placementArray = One placement | Many "placement list"

text \<open>The \<open>autoClose\<close> input: \<open>boolean | 'outside' | 'inside'\<close>.\<close>

datatype autoCloseMode = ACFalse | ACTrue | ACOutside | ACInside

text \<open>JavaScript truthiness of an \<open>autoClose\<close> value: only \<open>false\<close> is falsy.\<close>

fun truthy_autoClose :: "autoCloseMode \<Rightarrow> bool" where
  "truthy_autoClose ACFalse = False"
| "truthy_autoClose ACTrue = True"
| "truthy_autoClose ACOutside = True"
| "truthy_autoClose ACInside = True"

text \<open>The \<open>container\<close> input: \<open>null | 'body'\<close>.\<close>

datatype containerTarget = CNull | CBody

text \<open>
  A click event is read through \<open>button\<close> and through
  \<open>element.contains($event.target)\<close>. The event carries \<open>target_chain\<close>, the target
  node followed by its ancestors; an element contains the target exactly when it
  occurs in that chain.
\<close>

record clickEvent =
  button :: int
  target_chain :: "node list"

definition contains :: "node \<Rightarrow> clickEvent \<Rightarrow> bool" where
  "contains el e = (el \<in> set (target_chain e))"

text \<open>
  \<open>SimpleChange\<close> of \<open>@angular/core\<close> has the fields \<open>previousValue\<close>,
  \<open>currentValue\<close> and \<open>firstChange\<close>, and the method
  \<open>isFirstChange(): boolean\<close> returning \<open>firstChange\<close>. The dropdown reads neither
  value, so only the flag is kept. A function object is truthy whatever it would
  return when called.
\<close>

record simpleChange =
  firstChange :: bool

definition isFirstChange :: "simpleChange \<Rightarrow> unit \<Rightarrow> bool" where
  "isFirstChange c = (\<lambda>_. firstChange c)"

definition truthy_function :: "(unit \<Rightarrow> bool) \<Rightarrow> bool" where
  "truthy_function f = True"

text \<open>\<open>SimpleChanges\<close>: the entries the dropdown looks at.\<close>

record simpleChanges =
  changes_container :: "simpleChange option"
  changes_placement :: "simpleChange option"

subsection \<open>The rendered document and \<open>Renderer2\<close>\<close>

text \<open>
  \<open>Renderer2\<close> belongs to the framework. Its operations act on a document made
  of parent links, inline styles and class lists; \<open>createElement\<close> hands out the
  next unused node. \<open>removeChild\<close> detaches the child when it is a child of the
  given parent and leaves the document as it is otherwise.
\<close>

record document =
  parentNode :: "node \<Rightarrow> node option"
  styleOf :: "node \<Rightarrow> string \<Rightarrow> string option"
  classList :: "node \<Rightarrow> string list"
  nextNode :: node

definition appendChild :: "node \<Rightarrow> node \<Rightarrow> document \<Rightarrow> document" where
  "appendChild parent child d = d\<lparr>parentNode := (parentNode d)(child := Some parent)\<rparr>"

definition removeChild :: "node \<Rightarrow> node \<Rightarrow> document \<Rightarrow> document" where
  "removeChild parent child d =
     (if parentNode d child = Some parent
      then d\<lparr>parentNode := (parentNode d)(child := None)\<rparr> else d)"

definition createElement :: "document \<Rightarrow> node \<times> document" where
  "createElement d = (nextNode d, d\<lparr>nextNode := Suc (nextNode d)\<rparr>)"

definition setStyle :: "node \<Rightarrow> string \<Rightarrow> string \<Rightarrow> document \<Rightarrow> document" where
  "setStyle el prop v d = d\<lparr>styleOf := (styleOf d)(el := (styleOf d el)(prop := Some v))\<rparr>"

definition removeStyle :: "node \<Rightarrow> string \<Rightarrow> document \<Rightarrow> document" where
  "removeStyle el prop d = d\<lparr>styleOf := (styleOf d)(el := (styleOf d el)(prop := None))\<rparr>"

definition addClass :: "node \<Rightarrow> string \<Rightarrow> document \<Rightarrow> document" where
  "addClass el c d =
     (if c \<in> set (classList d el) then d
      else d\<lparr>classList := (classList d)(el := classList d el @ [c])\<rparr>)"

definition removeClass :: "node \<Rightarrow> string \<Rightarrow> document \<Rightarrow> document" where
  "removeClass el c d = d\<lparr>classList := (classList d)(el := removeAll c (classList d el))\<rparr>"

subsection \<open>The directives\<close>

record ngbDropdownMenu =
  menu_placement :: "placement option"
  menu_isOpen :: bool
  menu_nativeElement :: node

record ngbDropdownAnchor =
  anchorEl :: node

text \<open>\<open>isEventFrom\<close> of the menu and of the anchor.\<close>

definition menu_isEventFrom :: "ngbDropdownMenu \<Rightarrow> clickEvent \<Rightarrow> bool" where
  "menu_isEventFrom m e = contains (menu_nativeElement m) e"

definition anchor_isEventFrom :: "ngbDropdownAnchor \<Rightarrow> clickEvent \<Rightarrow> bool" where
  "anchor_isEventFrom a e = contains (anchorEl a) e"

text \<open>
  The fields of \<open>NgbDropdown\<close>. \<open>opened\<close> is the field \<open>_open\<close>. An undefined or
  null field is \<open>None\<close>. \<open>zoneSubscription\<close> tells whether the subscription to
  \<open>ngZone.onStable\<close> is live. \<open>outsideClickListener\<close> holds the handle returned by
  \<open>renderer.listen\<close>; \<open>documentClick\<close> lists the handles of the click listeners
  on the document that the component registered and that were not removed.
  \<open>openChange\<close> lists the emitted payloads, oldest first.
\<close>

record ngbDropdown =
  zoneSubscription :: bool
  outsideClickListener :: "nat option"
  bodyContainer :: "node option"
  menu :: "ngbDropdownMenu option"
  menuElement :: "node option"
  anchor :: "ngbDropdownAnchor option"
  autoClose :: autoCloseMode
  opened :: bool
  placement :: "placementArray option"
  container :: containerTarget
  openChange :: "bool list"
  elementRef :: node
  documentBody :: node
  rendered :: document
  documentClick :: "nat list"
  nextListener :: nat

datatype 'a completion = Done 'a | Throw 'a

fun state_of :: "'a completion \<Rightarrow> 'a" where
  "state_of (Done s) = s"
| "state_of (Throw s) = s"

fun and_then :: "'a completion \<Rightarrow> ('a \<Rightarrow> 'a completion) \<Rightarrow> 'a completion" where
  "and_then (Done s) f = f s"
| "and_then (Throw s) f = Throw s"

text \<open>
  \<open>positionElements\<close> is imported from \<open>../util/positioning\<close>. It is a parameter
  of the methods that call it: from the host element, the target element, the
  placement and the append-to-body flag it returns the applied placement, and it
  may restyle the document.
\<close>

type_synonym positionElements =
  "node \<Rightarrow> node \<Rightarrow> placementArray option \<Rightarrow> bool \<Rightarrow> document \<Rightarrow> placement \<times> document"

subsection \<open>Methods of \<open>NgbDropdown\<close>\<close>

definition isOpen :: "ngbDropdown \<Rightarrow> bool" where
  "isOpen s = opened s"

definition isEventFromToggle :: "clickEvent \<Rightarrow> ngbDropdown \<Rightarrow> bool option" where
  "isEventFromToggle e s =
     (case anchor s of None \<Rightarrow> None | Some a \<Rightarrow> Some (anchor_isEventFrom a e))"

definition isEventFromMenu :: "clickEvent \<Rightarrow> ngbDropdown \<Rightarrow> bool" where
  "isEventFromMenu e s =
     (case menu s of None \<Rightarrow> False | Some m \<Rightarrow> menu_isEventFrom m e)"

definition registerListener :: "ngbDropdown \<Rightarrow> ngbDropdown" where
  "registerListener s =
     s\<lparr>outsideClickListener := Some (nextListener s),
       documentClick := documentClick s @ [nextListener s],
       nextListener := Suc (nextListener s)\<rparr>"

text \<open>Calling the function returned by \<open>renderer.listen\<close> removes that listener.\<close>

definition unlisten :: "nat \<Rightarrow> ngbDropdown \<Rightarrow> ngbDropdown" where
  "unlisten h s = s\<lparr>documentClick := removeAll h (documentClick s)\<rparr>"

definition emit :: "bool \<Rightarrow> ngbDropdown \<Rightarrow> ngbDropdown" where
  "emit b s = s\<lparr>openChange := openChange s @ [b]\<rparr>"

definition resetContainer :: "ngbDropdown \<Rightarrow> ngbDropdown" where
  "resetContainer s =
     (let s1 = (case menuElement s of
                  None \<Rightarrow> s
                | Some m \<Rightarrow>
                    s\<lparr>rendered :=
                        removeStyle m ''transform''
                          (removeStyle m ''position''
                            (appendChild (elementRef s) m (rendered s)))\<rparr>)
      in case bodyContainer s1 of
           None \<Rightarrow> s1
         | Some b \<Rightarrow>
             s1\<lparr>rendered := removeChild (documentBody s1) b (rendered s1),
                bodyContainer := None\<rparr>)"

definition applyContainer :: "containerTarget \<Rightarrow> ngbDropdown \<Rightarrow> ngbDropdown completion" where
  "applyContainer c s =
     (let s1 = resetContainer s in
      if c = CBody then
        (case menuElement s1 of
           None \<Rightarrow> Throw s1
         | Some m \<Rightarrow>
             (let (b, d0) = (case bodyContainer s1 of
                               Some b \<Rightarrow> (b, rendered s1)
                             | None \<Rightarrow> createElement (rendered s1));
                  d1 = setStyle b ''position'' ''absolute'' d0;
                  d2 = setStyle m ''position'' ''static'' d1;
                  d3 = appendChild b m d2;
                  d4 = appendChild (documentBody s1) b d3
              in Done (s1\<lparr>bodyContainer := Some b, rendered := d4\<rparr>)))
      else Done s1)"

text \<open>\<open>placement.search('^top') !== -1\<close>: the name starts with \<open>top\<close>.\<close>

definition starts_with_top :: "string \<Rightarrow> bool" where
  "starts_with_top n = (take 3 n = ''top'')"

definition applyPlacementClasses :: "placement option \<Rightarrow> ngbDropdown \<Rightarrow> ngbDropdown completion" where
  "applyPlacementClasses arg s =
     (case menu s of
        None \<Rightarrow> Done s
      | Some m \<Rightarrow>
          (let configured =
                 (case placement s of
                    None \<Rightarrow> None
                  | Some (One p) \<Rightarrow> Some p
                  | Some (Many ps) \<Rightarrow> (case ps of [] \<Rightarrow> None | p # _ \<Rightarrow> Some p));
               pl = (case arg of
                       None \<Rightarrow> configured
                     | Some p \<Rightarrow> if placement_name p = [] then configured else Some p);
               host = elementRef s;
               d1 = removeClass host ''dropdown'' (removeClass host ''dropup'' (rendered s));
               s1 = s\<lparr>rendered := d1,
                      placement := map_option One pl,
                      menu := Some (m\<lparr>menu_placement := pl\<rparr>)\<rparr>
           in case pl of
                None \<Rightarrow> Throw s1
              | Some p \<Rightarrow>
                  (let dropdownClass =
                         (if starts_with_top (placement_name p) then ''dropup'' else ''dropdown'');
                       d2 = addClass host dropdownClass d1
                   in case bodyContainer s1 of
                        None \<Rightarrow> Done (s1\<lparr>rendered := d2\<rparr>)
                      | Some b \<Rightarrow>
                          Done (s1\<lparr>rendered :=
                                  addClass b dropdownClass
                                    (removeClass b ''dropdown''
                                      (removeClass b ''dropup'' d2))\<rparr>))))"

definition positionMenu :: "positionElements \<Rightarrow> ngbDropdown \<Rightarrow> ngbDropdown completion" where
  "positionMenu pe s =
     (if isOpen s \<and> menu s \<noteq> None then
        (case anchor s of
           None \<Rightarrow> Throw s
         | Some a \<Rightarrow>
             (case (case bodyContainer s of Some b \<Rightarrow> Some b | None \<Rightarrow> menuElement s) of
                None \<Rightarrow> Throw s
              | Some t \<Rightarrow>
                  (let (p, d) = pe (anchorEl a) t (placement s) (container s = CBody) (rendered s)
                   in applyPlacementClasses (Some p) (s\<lparr>rendered := d\<rparr>))))
      else Done s)"

text \<open>The method \<open>open\<close>.\<close>

definition open_dropdown :: "positionElements \<Rightarrow> ngbDropdown \<Rightarrow> ngbDropdown completion" where
  "open_dropdown pe s =
     (if \<not> opened s then
        and_then (and_then (applyContainer (container s) (s\<lparr>opened := True\<rparr>))
                   (\<lambda>s1. positionMenu pe (registerListener s1)))
          (\<lambda>s2. Done (emit True s2))
      else Done s)"

definition close :: "ngbDropdown \<Rightarrow> ngbDropdown completion" where
  "close s =
     (if opened s then
        (let s1 = resetContainer (s\<lparr>opened := False\<rparr>) in
         case outsideClickListener s1 of
           None \<Rightarrow> Throw s1
         | Some h \<Rightarrow> Done (emit False (unlisten h s1)))
      else Done s)"

definition toggle :: "positionElements \<Rightarrow> ngbDropdown \<Rightarrow> ngbDropdown completion" where
  "toggle pe s = (if isOpen s then close s else open_dropdown pe s)"

definition closeFromClick :: "clickEvent \<Rightarrow> ngbDropdown \<Rightarrow> ngbDropdown completion" where
  "closeFromClick e s =
     (if truthy_autoClose (autoClose s) \<and> button e \<noteq> 2 then
        (case isEventFromToggle e s of
           None \<Rightarrow> Throw s
         | Some fromToggle \<Rightarrow>
             if \<not> fromToggle then
               (if autoClose s = ACTrue then close s
                else if autoClose s = ACInside \<and> isEventFromMenu e s then close s
                else if autoClose s = ACOutside \<and> \<not> isEventFromMenu e s then close s
                else Done s)
             else Done s)
      else Done s)"

definition closeFromOutsideEsc :: "ngbDropdown \<Rightarrow> ngbDropdown completion" where
  "closeFromOutsideEsc s = (if truthy_autoClose (autoClose s) then close s else Done s)"

definition ngOnDestroy :: "ngbDropdown \<Rightarrow> ngbDropdown completion" where
  "ngOnDestroy s = Done ((resetContainer s)\<lparr>zoneSubscription := False\<rparr>)"

definition ngOnInit :: "ngbDropdown \<Rightarrow> ngbDropdown completion" where
  "ngOnInit s =
     and_then (applyPlacementClasses None s)
       (\<lambda>s1. if opened s1 then Done (registerListener s1) else Done s1)"

definition ngOnChanges :: "simpleChanges \<Rightarrow> ngbDropdown \<Rightarrow> ngbDropdown completion" where
  "ngOnChanges changes s =
     and_then
       (if changes_container changes \<noteq> None \<and> opened s
        then applyContainer (container s) s else Done s)
       (\<lambda>s1. case changes_placement changes of
                None \<Rightarrow> Done s1
              | Some c \<Rightarrow>
                  if \<not> truthy_function (isFirstChange c)
                  then applyPlacementClasses None s1 else Done s1)"

text \<open>
  The callback subscribed to \<open>ngZone.onStable\<close> in the constructor: it runs
  \<open>_positionMenu\<close> for as long as the subscription is live.
\<close>

definition onStable :: "positionElements \<Rightarrow> ngbDropdown \<Rightarrow> ngbDropdown completion" where
  "onStable pe s = (if zoneSubscription s then positionMenu pe s else Done s)"

subsection \<open>Construction, lifecycle and runs\<close>

text \<open>
  \<open>NgbDropdownConfig\<close> is declared in \<open>./dropdown-config\<close>; the constructor reads
  the three members below. The constructor leaves the content children
  (\<open>_menu\<close>, \<open>_menuElement\<close>, \<open>_anchor\<close>) undefined and \<open>_open\<close> false; the
  framework assigns the content children and the inputs afterwards. The \<open>open\<close>
  input is the field \<open>_open\<close> itself (\<open>@Input('open') _open\<close>, line 132), so
  its first value is part of the state the lifecycle starts from, and the
  framework writes the field again whenever the bound value changes.
\<close>

record ngbDropdownConfig =
  config_autoClose :: autoCloseMode
  config_placement :: placementArray
  config_container :: containerTarget

definition construct :: "ngbDropdownConfig \<Rightarrow> node \<Rightarrow> node \<Rightarrow> document \<Rightarrow> ngbDropdown" where
  "construct config body host d =
     \<lparr>zoneSubscription = True,
      outsideClickListener = None,
      bodyContainer = None,
      menu = None,
      menuElement = None,
      anchor = None,
      autoClose = config_autoClose config,
      opened = False,
      placement = Some (config_placement config),
      container = config_container config,
      openChange = [],
      elementRef = host,
      documentBody = body,
      rendered = d,
      documentClick = [],
      nextListener = 0\<rparr>"


text \<open>
  The framework calls \<open>ngOnChanges\<close> with the first values of the bound inputs
  and then \<open>ngOnInit\<close>, once.
\<close>

definition start :: "simpleChanges \<Rightarrow> ngbDropdown \<Rightarrow> ngbDropdown" where
  "start changes s = state_of (ngOnInit (state_of (ngOnChanges changes s)))"

text \<open>
  What can happen to a started dropdown: a call of a public method, the click
  listener or the escape binding firing, a stable zone, the framework writing the
  inputs and then calling \<open>ngOnChanges\<close>, and destruction. A raised error ends
  the call, not the component: the next call runs on the state the error left.

  When bound values change, the framework assigns the input fields and calls
  \<open>ngOnChanges\<close>. \<open>inputs\<close> gives the values of \<open>autoClose\<close>, \<open>placement\<close> and
  \<open>container\<close> after the assignment (the old value where an input did not
  change), and \<open>input_open\<close> the new value of \<open>_open\<close> when the \<open>open\<close>
  binding changed, \<open>None\<close> when it did not.
\<close>

record inputs =
  input_open :: "bool option"
  input_autoClose :: autoCloseMode
  input_placement :: "placementArray option"
  input_container :: containerTarget

definition write_inputs :: "inputs \<Rightarrow> ngbDropdown \<Rightarrow> ngbDropdown" where
  "write_inputs i s =
     s\<lparr>opened := (case input_open i of None \<Rightarrow> opened s | Some b \<Rightarrow> b),
       autoClose := input_autoClose i,
       placement := input_placement i,
       container := input_container i\<rparr>"

datatype call =
    CallOpen positionElements
  | CallClose
  | CallToggle positionElements
  | CallCloseFromClick clickEvent
  | CallCloseFromOutsideEsc
  | CallOnStable positionElements
  | CallOnChanges inputs simpleChanges
  | CallOnDestroy

fun perform :: "call \<Rightarrow> ngbDropdown \<Rightarrow> ngbDropdown completion" where
  "perform (CallOpen pe) s = open_dropdown pe s"
| "perform CallClose s = close s"
| "perform (CallToggle pe) s = toggle pe s"
| "perform (CallCloseFromClick e) s = closeFromClick e s"
| "perform CallCloseFromOutsideEsc s = closeFromOutsideEsc s"
| "perform (CallOnStable pe) s = onStable pe s"
| "perform (CallOnChanges i changes) s = ngOnChanges changes (write_inputs i s)"
| "perform CallOnDestroy s = ngOnDestroy s"

fun run :: "call list \<Rightarrow> ngbDropdown \<Rightarrow> ngbDropdown" where
  "run [] s = s"
| "run (c # cs) s = run cs (state_of (perform c s))"

text \<open>A call that does not rebind the \<open>open\<close> input.\<close>

fun leaves_open_input :: "call \<Rightarrow> bool" where
  "leaves_open_input (CallOnChanges i changes) = (input_open i = None)"
| "leaves_open_input c = True"

subsection \<open>Derived notions\<close>

fun returned :: "'a completion \<Rightarrow> bool" where
  "returned (Done s) = True"
| "returned (Throw s) = False"

text \<open>The container mode: detached exactly when a body container is held.\<close>

datatype containerMode = Inline | Detached

definition containerMode :: "ngbDropdown \<Rightarrow> containerMode" where
  "containerMode s = (case bodyContainer s of None \<Rightarrow> Inline | Some b \<Rightarrow> Detached)"


text \<open>
  \<open>wired\<close>: the content children that \<open>open\<close> dereferences are there, namely the
  menu element when the container is the body, and the anchor and the menu element
  when there is a menu. \<open>listening\<close>: an open dropdown holds a listener handle.
  \<open>complete\<close>: anchor, menu and menu element are all registered.
\<close>

definition wired :: "ngbDropdown \<Rightarrow> bool" where
  "wired s \<longleftrightarrow>
     (container s = CBody \<longrightarrow> menuElement s \<noteq> None) \<and>
     (menu s \<noteq> None \<longrightarrow> anchor s \<noteq> None \<and> menuElement s \<noteq> None)"

definition listening :: "ngbDropdown \<Rightarrow> bool" where
  "listening s \<longleftrightarrow> (opened s \<longrightarrow> outsideClickListener s \<noteq> None)"

definition complete :: "ngbDropdown \<Rightarrow> bool" where
  "complete s \<longleftrightarrow> anchor s \<noteq> None \<and> menu s \<noteq> None \<and> menuElement s \<noteq> None"

definition ready :: "ngbDropdown \<Rightarrow> bool" where
  "ready s \<longleftrightarrow> complete s \<and> listening s"

subsection \<open>An example dropdown\<close>

definition emptyDocument :: document where
  "emptyDocument =
     \<lparr>parentNode = (\<lambda>n. None), styleOf = (\<lambda>n p. None), classList = (\<lambda>n. []), nextNode = 10\<rparr>"

definition example_config :: ngbDropdownConfig where
  "example_config =
     \<lparr>config_autoClose = ACTrue, config_placement = One BottomLeft, config_container = CNull\<rparr>"

text \<open>
  The body is node 0, the host element node 1, the anchor node 2 and the menu
  node 3. The example dropdown is closed, with \<open>autoClose\<close> true and no container.
\<close>

definition example_dropdown :: ngbDropdown where
  "example_dropdown =
     (construct example_config 0 1 emptyDocument)
       \<lparr>menu := Some \<lparr>menu_placement = Some Bottom, menu_isOpen = False, menu_nativeElement = 3\<rparr>,
        menuElement := Some 3,
        anchor := Some \<lparr>anchorEl = 2\<rparr>\<rparr>"

text \<open>A \<open>positionElements\<close> that applies the first configured placement.\<close>

definition example_positionElements :: positionElements where
  "example_positionElements hostEl targetEl pl appendToBody d =
     (case pl of
        Some (One p) \<Rightarrow> (p, d)
      | Some (Many (p # ps)) \<Rightarrow> (p, d)
      | _ \<Rightarrow> (Bottom, d))"

definition no_changes :: simpleChanges where
  "no_changes = \<lparr>changes_container = None, changes_placement = None\<rparr>"

text \<open>The example dropdown after \<open>open()\<close>.\<close>

definition example_open :: ngbDropdown where
  "example_open = state_of (open_dropdown example_positionElements example_dropdown)"

text \<open>
  The example dropdown, initialised, whose \<open>placement\<close> input then changes from
  \<open>bottom-left\<close> to \<open>top\<close>, and the changes object the framework passes for it.
\<close>

definition example_restyled :: ngbDropdown where
  "example_restyled = (start no_changes example_dropdown)\<lparr>placement := Some (One Top)\<rparr>"

definition placement_changed :: simpleChanges where
  "placement_changed =
     \<lparr>changes_container = None, changes_placement = Some \<lparr>firstChange = False\<rparr>\<rparr>"


definition example_inside :: ngbDropdown where
  "example_inside = example_open\<lparr>autoClose := ACInside\<rparr>"



text \<open>The example dropdown without an anchor, started.\<close>

definition example_no_anchor :: ngbDropdown where
  "example_no_anchor = start no_changes (example_dropdown\<lparr>anchor := None\<rparr>)"

section \<open>What each method leaves unchanged\<close>

lemma resetContainer_frame:
  "opened (resetContainer s) = opened s"
  "outsideClickListener (resetContainer s) = outsideClickListener s"
  "documentClick (resetContainer s) = documentClick s"
  "nextListener (resetContainer s) = nextListener s"
  "openChange (resetContainer s) = openChange s"
  "menu (resetContainer s) = menu s"
  "menuElement (resetContainer s) = menuElement s"
  "anchor (resetContainer s) = anchor s"
  "autoClose (resetContainer s) = autoClose s"
  "container (resetContainer s) = container s"
  "placement (resetContainer s) = placement s"
  "zoneSubscription (resetContainer s) = zoneSubscription s"
  "bodyContainer (resetContainer s) = None"
  by (simp_all add: resetContainer_def Let_def split: option.splits)

lemma applyContainer_frame:
  "opened (state_of (applyContainer c s)) = opened s"
  "outsideClickListener (state_of (applyContainer c s)) = outsideClickListener s"
  "documentClick (state_of (applyContainer c s)) = documentClick s"
  "nextListener (state_of (applyContainer c s)) = nextListener s"
  "openChange (state_of (applyContainer c s)) = openChange s"
  "menu (state_of (applyContainer c s)) = menu s"
  "menuElement (state_of (applyContainer c s)) = menuElement s"
  "anchor (state_of (applyContainer c s)) = anchor s"
  "autoClose (state_of (applyContainer c s)) = autoClose s"
  "container (state_of (applyContainer c s)) = container s"
  "placement (state_of (applyContainer c s)) = placement s"
  "zoneSubscription (state_of (applyContainer c s)) = zoneSubscription s"
  by (simp_all add: applyContainer_def Let_def resetContainer_frame createElement_def split: option.splits prod.splits)

lemma applyPlacementClasses_frame:
  "opened (state_of (applyPlacementClasses a s)) = opened s"
  "outsideClickListener (state_of (applyPlacementClasses a s)) = outsideClickListener s"
  "documentClick (state_of (applyPlacementClasses a s)) = documentClick s"
  "nextListener (state_of (applyPlacementClasses a s)) = nextListener s"
  "openChange (state_of (applyPlacementClasses a s)) = openChange s"
  "bodyContainer (state_of (applyPlacementClasses a s)) = bodyContainer s"
  "(menu (state_of (applyPlacementClasses a s)) = None) = (menu s = None)"
  "menuElement (state_of (applyPlacementClasses a s)) = menuElement s"
  "anchor (state_of (applyPlacementClasses a s)) = anchor s"
  "autoClose (state_of (applyPlacementClasses a s)) = autoClose s"
  "container (state_of (applyPlacementClasses a s)) = container s"
  "zoneSubscription (state_of (applyPlacementClasses a s)) = zoneSubscription s"
  by (simp_all add: applyPlacementClasses_def Let_def split: option.splits)

lemma positionMenu_frame:
  "opened (state_of (positionMenu pe s)) = opened s"
  "outsideClickListener (state_of (positionMenu pe s)) = outsideClickListener s"
  "documentClick (state_of (positionMenu pe s)) = documentClick s"
  "nextListener (state_of (positionMenu pe s)) = nextListener s"
  "openChange (state_of (positionMenu pe s)) = openChange s"
  "bodyContainer (state_of (positionMenu pe s)) = bodyContainer s"
  "(menu (state_of (positionMenu pe s)) = None) = (menu s = None)"
  "menuElement (state_of (positionMenu pe s)) = menuElement s"
  "anchor (state_of (positionMenu pe s)) = anchor s"
  "autoClose (state_of (positionMenu pe s)) = autoClose s"
  "container (state_of (positionMenu pe s)) = container s"
  "zoneSubscription (state_of (positionMenu pe s)) = zoneSubscription s"
  by (simp_all add: positionMenu_def Let_def applyPlacementClasses_frame split: option.splits prod.splits)

lemma registerListener_frame:
  "opened (registerListener s) = opened s"
  "outsideClickListener (registerListener s) = Some (nextListener s)"
  "documentClick (registerListener s) = documentClick s @ [nextListener s]"
  "openChange (registerListener s) = openChange s"
  "bodyContainer (registerListener s) = bodyContainer s"
  "menu (registerListener s) = menu s"
  "menuElement (registerListener s) = menuElement s"
  "anchor (registerListener s) = anchor s"
  "container (registerListener s) = container s"
  by (simp_all add: registerListener_def)


lemma state_of_and_then:
  "state_of (and_then r f) = (if returned r then state_of (f (state_of r)) else state_of r)"
  by (cases r) simp_all

lemma returned_and_then:
  "returned (and_then r f) = (returned r \<and> returned (f (state_of r)))"
  by (cases r) simp_all

lemma emit_frame:
  "opened (emit b s) = opened s"
  "outsideClickListener (emit b s) = outsideClickListener s"
  "documentClick (emit b s) = documentClick s"
  "openChange (emit b s) = openChange s @ [b]"
  "bodyContainer (emit b s) = bodyContainer s"
  "menu (emit b s) = menu s"
  "menuElement (emit b s) = menuElement s"
  "anchor (emit b s) = anchor s"
  by (simp_all add: emit_def)

lemma unlisten_frame:
  "opened (unlisten h s) = opened s"
  "outsideClickListener (unlisten h s) = outsideClickListener s"
  "documentClick (unlisten h s) = removeAll h (documentClick s)"
  "openChange (unlisten h s) = openChange s"
  "bodyContainer (unlisten h s) = bodyContainer s"
  "menu (unlisten h s) = menu s"
  "menuElement (unlisten h s) = menuElement s"
  "anchor (unlisten h s) = anchor s"
  by (simp_all add: unlisten_def)

lemmas frames =
  resetContainer_frame applyContainer_frame applyPlacementClasses_frame positionMenu_frame
  registerListener_frame emit_frame unlisten_frame

lemma opened_open_dropdown: "opened (state_of (open_dropdown pe s))"
  by (simp add: open_dropdown_def state_of_and_then frames)

lemma opened_close: "\<not> opened (state_of (close s))"
  by (simp add: close_def Let_def frames split: option.splits)

lemma bodyContainer_close: "opened s \<Longrightarrow> bodyContainer (state_of (close s)) = None"
  by (simp add: close_def Let_def frames split: option.splits)













lemmas example_defs =
  example_dropdown_def construct_def example_config_def emptyDocument_def
  example_positionElements_def no_changes_def

lemmas method_defs =
  open_dropdown_def close_def toggle_def closeFromClick_def closeFromOutsideEsc_def
  ngOnDestroy_def ngOnInit_def ngOnChanges_def onStable_def positionMenu_def
  applyPlacementClasses_def applyContainer_def resetContainer_def registerListener_def
  unlisten_def emit_def isOpen_def isEventFromToggle_def isEventFromMenu_def
  anchor_isEventFrom_def menu_isEventFrom_def contains_def
  starts_with_top_def createElement_def appendChild_def removeChild_def setStyle_def
  removeStyle_def addClass_def removeClass_def truthy_function_def start_def

lemma example_open_eval:
  "example_open =
     example_dropdown
       \<lparr>opened := True, outsideClickListener := Some 0, documentClick := [0],
        nextListener := 1, openChange := [True],
        menu := Some \<lparr>menu_placement = Some BottomLeft, menu_isOpen = False, menu_nativeElement = 3\<rparr>,
        rendered := (rendered example_dropdown)
          \<lparr>parentNode := (\<lambda>n. None)(3 := Some 1), classList := (\<lambda>n. [])(1 := [''dropdown''])\<rparr>\<rparr>"
  by (simp add: example_open_def method_defs example_defs Let_def fun_upd_idem)

section \<open>When the methods return\<close>

lemma placement_name_nonempty: "placement_name p \<noteq> []"
  by (cases p) simp_all

lemma returned_applyPlacementClasses_Some: "returned (applyPlacementClasses (Some p) s)"
  by (simp add: applyPlacementClasses_def Let_def placement_name_nonempty split: option.splits)

lemma returned_applyContainer:
  "c = CBody \<longrightarrow> menuElement s \<noteq> None \<Longrightarrow> returned (applyContainer c s)"
  by (auto simp: applyContainer_def Let_def frames split: option.splits prod.splits)

lemma returned_positionMenu:
  "menu s \<noteq> None \<longrightarrow> anchor s \<noteq> None \<and> menuElement s \<noteq> None \<Longrightarrow>
     returned (positionMenu pe s)"
  by (auto simp: positionMenu_def returned_applyPlacementClasses_Some
        split: option.splits prod.splits)

lemma returned_open_dropdown: "wired s \<Longrightarrow> returned (open_dropdown pe s)"
  by (simp add: wired_def open_dropdown_def returned_and_then returned_applyContainer
        returned_positionMenu frames)

lemma returned_close: "listening s \<Longrightarrow> returned (close s)"
  by (auto simp: listening_def close_def Let_def frames split: option.splits)

lemma openChange_open_dropdown:
  "returned (open_dropdown pe s) \<Longrightarrow> \<not> opened s \<Longrightarrow>
     openChange (state_of (open_dropdown pe s)) = openChange s @ [True]"
  by (simp add: open_dropdown_def returned_and_then state_of_and_then frames)

lemma openChange_close:
  "returned (close s) \<Longrightarrow> opened s \<Longrightarrow>
     openChange (state_of (close s)) = openChange s @ [False]"
  by (auto simp: close_def Let_def frames split: option.splits)

text \<open>
  On a complete dropdown whose initialisation returned, every state of every run
  that does not rebind the \<open>open\<close> input is \<open>ready\<close>, so \<open>toggle\<close> returns there.
\<close>

lemma complete_wired: "complete s \<Longrightarrow> wired s"
  by (simp add: complete_def wired_def)

lemma ready_open: "ready s \<Longrightarrow> ready (state_of (open_dropdown pe s))"
  using returned_open_dropdown [OF complete_wired, of s pe]
  by (auto simp: ready_def complete_def listening_def open_dropdown_def returned_and_then
        state_of_and_then frames simp del: not_None_eq)

lemma ready_close: "ready s \<Longrightarrow> ready (state_of (close s))"
  by (auto simp: ready_def complete_def listening_def close_def Let_def frames split: option.splits)

lemma ready_toggle: "ready s \<Longrightarrow> ready (state_of (toggle pe s))"
  by (simp add: toggle_def ready_open ready_close)

lemma ready_closeFromClick: "ready s \<Longrightarrow> ready (state_of (closeFromClick e s))"
  by (simp add: closeFromClick_def ready_close split: option.splits)

lemma ready_closeFromOutsideEsc: "ready s \<Longrightarrow> ready (state_of (closeFromOutsideEsc s))"
  by (simp add: closeFromOutsideEsc_def ready_close)

lemma ready_onStable: "ready s \<Longrightarrow> ready (state_of (onStable pe s))"
  by (simp add: onStable_def ready_def complete_def listening_def frames del: not_None_eq)

lemma ready_ngOnDestroy: "ready s \<Longrightarrow> ready (state_of (ngOnDestroy s))"
  by (simp add: ngOnDestroy_def ready_def complete_def listening_def frames del: not_None_eq)

lemma ready_ngOnChanges: "ready s \<Longrightarrow> ready (state_of (ngOnChanges changes s))"
  by (auto simp: ngOnChanges_def ready_def complete_def listening_def state_of_and_then frames
        truthy_function_def simp del: not_None_eq split: option.splits)

lemma ready_inputs: "input_open i = None \<Longrightarrow> ready s \<Longrightarrow> ready (write_inputs i s)"
  by (simp add: ready_def complete_def listening_def write_inputs_def)

lemma ready_perform: "leaves_open_input c \<Longrightarrow> ready s \<Longrightarrow> ready (state_of (perform c s))"
  by (cases c)
     (simp_all add: ready_open ready_close ready_toggle ready_closeFromClick
        ready_closeFromOutsideEsc ready_onStable ready_ngOnChanges ready_inputs ready_ngOnDestroy)

lemma ready_run: "list_all leaves_open_input cs \<Longrightarrow> ready s \<Longrightarrow> ready (run cs s)"
  by (induction cs arbitrary: s) (simp_all add: ready_perform)

lemma ready_start:
  "complete s \<Longrightarrow> returned (ngOnInit (state_of (ngOnChanges changes s))) \<Longrightarrow>
     ready (start changes s)"
  by (auto simp: start_def ngOnInit_def ngOnChanges_def ready_def complete_def listening_def
        returned_and_then state_of_and_then frames truthy_function_def
        simp del: not_None_eq split: option.splits)

lemma toggle_returns_on_runs:
  assumes "complete s0" and "returned (ngOnInit (state_of (ngOnChanges changes s0)))"
    and "list_all leaves_open_input cs"
  shows "returned (toggle pe (run cs (start changes s0)))"
proof -
  have "ready (start changes s0)"
    using assms(1,2) by (rule ready_start)
  with assms(3) have "ready (run cs (start changes s0))"
    by (rule ready_run)
  then show ?thesis
    by (simp add: ready_def toggle_def returned_open_dropdown returned_close complete_wired)
qed

section \<open>Teardown\<close>

lemma ngOnDestroy_documentClick:
  "documentClick (state_of (ngOnDestroy s)) = documentClick s"
  by (simp add: ngOnDestroy_def frames)

text \<open>
  C1. \<open>ngOnDestroy\<close> resets the container and unsubscribes from the zone; it does
  not call \<open>_outsideClickListener\<close>, and so leaves the click listeners on the
  document as they were. On the example dropdown, opened and then destroyed, the
  click listener registered by \<open>open\<close> is still on the document: one listener is
  live after teardown, not zero.
\<close>

theorem destroy_while_open_keeps_click_listener:
  "isOpen (state_of (open_dropdown example_positionElements example_dropdown)) \<and>
   documentClick (state_of (open_dropdown example_positionElements example_dropdown)) = [0] \<and>
   documentClick
     (state_of (ngOnDestroy (state_of (open_dropdown example_positionElements example_dropdown))))
     = [0]"
  by (simp add: method_defs example_defs Let_def)

section \<open>Configuration changes\<close>

text \<open>
  The test \<open>!changes.placement.isFirstChange\<close> negates the method itself, which is
  truthy, so the second branch of \<open>ngOnChanges\<close> is never taken: the entry for
  \<open>placement\<close> has no influence on what \<open>ngOnChanges\<close> does.
\<close>

lemma ngOnChanges_ignores_placement:
  "ngOnChanges changes s =
     (if changes_container changes \<noteq> None \<and> opened s
      then applyContainer (container s) s else Done s)"
  by (cases "applyContainer (container s) s")
     (auto simp: ngOnChanges_def truthy_function_def split: option.splits)

text \<open>
  C2. The example dropdown carries the class \<open>dropdown\<close> after initialisation.
  Its \<open>placement\<close> input changes to \<open>top\<close>, not for the first time. Re-applying
  the placement classes would replace \<open>dropdown\<close> by \<open>dropup\<close>; \<open>ngOnChanges\<close>
  returns the state as it was, the class \<open>dropdown\<close> still in place.
\<close>

theorem placement_change_not_reapplied:
  "classList (rendered example_restyled) (elementRef example_restyled) = [''dropdown''] \<and>
   classList (rendered (state_of (applyPlacementClasses None example_restyled)))
     (elementRef example_restyled) = [''dropup''] \<and>
   ngOnChanges placement_changed example_restyled = Done example_restyled"
  by (simp add: example_restyled_def placement_changed_def method_defs example_defs Let_def)

section \<open>Dismissal\<close>

text \<open>
  C3, as the code has it. With \<open>autoClose\<close> true, on an open dropdown with its
  anchor registered: a click whose button is not 2 and which does not come from the
  anchor closes the dropdown; a click with button 2 returns without any change,
  wherever it occurs; a click from the anchor returns without any change,
  whatever its button.
\<close>

theorem autoClose_true_click:
  assumes "autoClose s = ACTrue" and "isOpen s" and "anchor s = Some a"
  shows "(button e \<noteq> 2 \<and> \<not> anchor_isEventFrom a e \<longrightarrow>
            \<not> isOpen (state_of (closeFromClick e s))) \<and>
         (button e = 2 \<longrightarrow> closeFromClick e s = Done s) \<and>
         (anchor_isEventFrom a e \<longrightarrow> closeFromClick e s = Done s)"
  using assms by (simp add: closeFromClick_def isEventFromToggle_def isOpen_def opened_close)

theorem autoClose_true_click_witness:
  "autoClose example_open = ACTrue \<and> isOpen example_open \<and>
   anchor example_open = Some \<lparr>anchorEl = 2\<rparr> \<and>
   \<not> anchor_isEventFrom \<lparr>anchorEl = 2\<rparr> \<lparr>button = 0, target_chain = [7, 0]\<rparr> \<and>
   \<not> isOpen (state_of (closeFromClick \<lparr>button = 0, target_chain = [7, 0]\<rparr> example_open)) \<and>
   closeFromClick \<lparr>button = 2, target_chain = [7, 0]\<rparr> example_open = Done example_open \<and>
   anchor_isEventFrom \<lparr>anchorEl = 2\<rparr> \<lparr>button = 0, target_chain = [2, 1, 0]\<rparr> \<and>
   closeFromClick \<lparr>button = 0, target_chain = [2, 1, 0]\<rparr> example_open = Done example_open"
proof -
  have h: "autoClose example_open = ACTrue" "isOpen example_open"
    "anchor example_open = Some \<lparr>anchorEl = 2\<rparr>"
    by (simp_all add: example_open_eval isOpen_def example_defs)
  have c: "\<not> anchor_isEventFrom \<lparr>anchorEl = 2\<rparr> \<lparr>button = 0, target_chain = [7, 0]\<rparr>"
    "anchor_isEventFrom \<lparr>anchorEl = 2\<rparr> \<lparr>button = 0, target_chain = [2, 1, 0]\<rparr>"
    by (simp_all add: anchor_isEventFrom_def contains_def)
  from autoClose_true_click [OF h, of "\<lparr>button = 0, target_chain = [7, 0]\<rparr>"]
       autoClose_true_click [OF h, of "\<lparr>button = 2, target_chain = [7, 0]\<rparr>"]
       autoClose_true_click [OF h, of "\<lparr>button = 0, target_chain = [2, 1, 0]\<rparr>"]
       h c
  show ?thesis by simp
qed

text \<open>
  C3, as stated, fails: the example dropdown is open with \<open>autoClose\<close> true, the
  click has button 2 and its target, node 7 under the body, is not inside the
  anchor, and the dropdown is still open afterwards.
\<close>

theorem secondary_click_outside_counterexample:
  "autoClose example_open = ACTrue \<and> isOpen example_open \<and>
   anchor example_open = Some \<lparr>anchorEl = 2\<rparr> \<and>
   \<not> anchor_isEventFrom \<lparr>anchorEl = 2\<rparr> \<lparr>button = 2, target_chain = [7, 0]\<rparr> \<and>
   isOpen (state_of (closeFromClick \<lparr>button = 2, target_chain = [7, 0]\<rparr> example_open))"
  by (simp add: example_open_def method_defs example_defs Let_def)

text \<open>
  C6. With \<open>autoClose\<close> \<open>'inside'\<close> on an open dropdown: a click with button 0
  from the menu (and not from the anchor) closes it; a click from neither the
  anchor nor the menu returns without any change; and with no menu registered
  \<open>_isEventFromMenu\<close> is false and the click leaves the state as it was, the
  dropdown still open.
\<close>

theorem autoClose_inside_click:
  assumes "autoClose s = ACInside" and "isOpen s"
  shows "(anchor s = Some a \<and> menu s = Some m \<and> button e = 0 \<and>
          menu_isEventFrom m e \<and> \<not> anchor_isEventFrom a e \<longrightarrow>
            \<not> isOpen (state_of (closeFromClick e s))) \<and>
         (anchor s = Some a \<and> menu s = Some m \<and>
          \<not> menu_isEventFrom m e \<and> \<not> anchor_isEventFrom a e \<longrightarrow>
            closeFromClick e s = Done s) \<and>
         (menu s = None \<longrightarrow>
            \<not> isEventFromMenu e s \<and> state_of (closeFromClick e s) = s \<and>
            isOpen (state_of (closeFromClick e s)))"
  using assms
  by (auto simp: closeFromClick_def isEventFromToggle_def isEventFromMenu_def isOpen_def
        opened_close split: option.splits)

theorem autoClose_inside_click_witness:
  "autoClose example_inside = ACInside \<and> isOpen example_inside \<and>
   \<not> isOpen (state_of (closeFromClick \<lparr>button = 0, target_chain = [8, 3, 1, 0]\<rparr> example_inside)) \<and>
   closeFromClick \<lparr>button = 0, target_chain = [7, 0]\<rparr> example_inside = Done example_inside \<and>
   menu (example_inside\<lparr>menu := None\<rparr>) = None \<and>
   isOpen (state_of (closeFromClick \<lparr>button = 0, target_chain = [8, 3, 1, 0]\<rparr>
                       (example_inside\<lparr>menu := None\<rparr>)))"
proof -
  have h: "autoClose example_inside = ACInside" "isOpen example_inside"
    and h': "autoClose (example_inside\<lparr>menu := None\<rparr>) = ACInside"
      "isOpen (example_inside\<lparr>menu := None\<rparr>)"
    by (simp_all add: example_inside_def example_open_eval isOpen_def)
  have w: "anchor example_inside = Some \<lparr>anchorEl = 2\<rparr>"
    "menu example_inside =
       Some \<lparr>menu_placement = Some BottomLeft, menu_isOpen = False, menu_nativeElement = 3\<rparr>"
    by (simp_all add: example_inside_def example_open_eval example_defs)
  from autoClose_inside_click [OF h, of "\<lparr>anchorEl = 2\<rparr>"
         "\<lparr>menu_placement = Some BottomLeft, menu_isOpen = False, menu_nativeElement = 3\<rparr>"
         "\<lparr>button = 0, target_chain = [8, 3, 1, 0]\<rparr>"]
       autoClose_inside_click [OF h, of "\<lparr>anchorEl = 2\<rparr>"
         "\<lparr>menu_placement = Some BottomLeft, menu_isOpen = False, menu_nativeElement = 3\<rparr>"
         "\<lparr>button = 0, target_chain = [7, 0]\<rparr>"]
       autoClose_inside_click [OF h', of "\<lparr>anchorEl = 2\<rparr>"
         "\<lparr>menu_placement = Some BottomLeft, menu_isOpen = False, menu_nativeElement = 3\<rparr>"
         "\<lparr>button = 0, target_chain = [8, 3, 1, 0]\<rparr>"]
       h h' w
  show ?thesis by (simp add: anchor_isEventFrom_def menu_isEventFrom_def contains_def)
qed

text \<open>
  C7. With \<open>autoClose\<close> false, a click of any origin and any button, and an escape
  key press, return without changing the state; in particular the dropdown stays
  as open as it was.
\<close>

theorem autoClose_false_never_closes:
  "autoClose s = ACFalse \<Longrightarrow>
     closeFromClick e s = Done s \<and> closeFromOutsideEsc s = Done s \<and>
     isOpen (state_of (closeFromClick e s)) = isOpen s \<and>
     isOpen (state_of (closeFromOutsideEsc s)) = isOpen s"
  by (simp add: closeFromClick_def closeFromOutsideEsc_def)

theorem autoClose_false_never_closes_witness:
  "autoClose (example_open\<lparr>autoClose := ACFalse\<rparr>) = ACFalse \<and>
   closeFromClick \<lparr>button = 0, target_chain = [7, 0]\<rparr> (example_open\<lparr>autoClose := ACFalse\<rparr>)
     = Done (example_open\<lparr>autoClose := ACFalse\<rparr>) \<and>
   closeFromOutsideEsc (example_open\<lparr>autoClose := ACFalse\<rparr>)
     = Done (example_open\<lparr>autoClose := ACFalse\<rparr>) \<and>
   isOpen (example_open\<lparr>autoClose := ACFalse\<rparr>)"
proof -
  have h: "autoClose (example_open\<lparr>autoClose := ACFalse\<rparr>) = ACFalse"
    by simp
  have o: "isOpen (example_open\<lparr>autoClose := ACFalse\<rparr>)"
    by (simp add: example_open_eval isOpen_def)
  from autoClose_false_never_closes
         [OF h, of "\<lparr>button = 0, target_chain = [7, 0]\<rparr>"] h o
  show ?thesis by simp
qed

text \<open>
  C8. With \<open>autoClose\<close> true, \<open>'inside'\<close> or \<open>'outside'\<close>, on an open dropdown, the
  escape path closes it: afterwards \<open>isOpen()\<close> is false and the container is
  inline. The method takes no event, so no origin can matter.
\<close>

theorem escape_closes:
  "autoClose s \<noteq> ACFalse \<Longrightarrow> isOpen s \<Longrightarrow>
     \<not> isOpen (state_of (closeFromOutsideEsc s)) \<and>
     containerMode (state_of (closeFromOutsideEsc s)) = Inline"
  by (cases "autoClose s")
     (simp_all add: closeFromOutsideEsc_def isOpen_def opened_close containerMode_def
        bodyContainer_close)

theorem escape_closes_witness:
  "autoClose (example_open\<lparr>autoClose := ACOutside\<rparr>) \<noteq> ACFalse \<and>
   isOpen (example_open\<lparr>autoClose := ACOutside\<rparr>) \<and>
   \<not> isOpen (state_of (closeFromOutsideEsc (example_open\<lparr>autoClose := ACOutside\<rparr>)))"
proof -
  have h: "autoClose (example_open\<lparr>autoClose := ACOutside\<rparr>) \<noteq> ACFalse"
    "isOpen (example_open\<lparr>autoClose := ACOutside\<rparr>)"
    by (simp_all add: example_open_eval isOpen_def)
  from escape_closes [OF h] h show ?thesis by simp
qed

section \<open>The open and close transitions\<close>






text \<open>
  C5. A second \<open>open()\<close> right after a first returns the state the first one
  left: the open flag, the click listeners on the document, the body container,
  the rendered document and the list of emitted notifications are the same, so
  the second call emits nothing and registers no listener.
\<close>

theorem open_twice_is_open_once:
  "open_dropdown pe' (state_of (open_dropdown pe s)) = Done (state_of (open_dropdown pe s)) \<and>
   isOpen (state_of (open_dropdown pe' (state_of (open_dropdown pe s)))) \<and>
   documentClick (state_of (open_dropdown pe' (state_of (open_dropdown pe s))))
     = documentClick (state_of (open_dropdown pe s)) \<and>
   bodyContainer (state_of (open_dropdown pe' (state_of (open_dropdown pe s))))
     = bodyContainer (state_of (open_dropdown pe s)) \<and>
   rendered (state_of (open_dropdown pe' (state_of (open_dropdown pe s))))
     = rendered (state_of (open_dropdown pe s)) \<and>
   openChange (state_of (open_dropdown pe' (state_of (open_dropdown pe s))))
     = openChange (state_of (open_dropdown pe s))"
proof -
  have "open_dropdown pe' (state_of (open_dropdown pe s)) = Done (state_of (open_dropdown pe s))"
    using opened_open_dropdown [of pe s] by (simp add: open_dropdown_def [of pe'])
  then show ?thesis by (simp add: isOpen_def opened_open_dropdown)
qed

text \<open>
  C10, as the code has it. \<open>toggle()\<close> always negates \<open>isOpen()\<close>, and two calls
  in a row restore it. Whenever the call returns, it has emitted exactly one
  notification, whose payload is the new value of \<open>isOpen()\<close>. The call returns
  on every dropdown whose content children are registered (\<open>wired\<close>) and which,
  when open, holds its listener handle (\<open>listening\<close>).
\<close>

theorem toggle_is_a_transition:
  "isOpen (state_of (toggle pe s)) = (\<not> isOpen s) \<and>
   isOpen (state_of (toggle pe' (state_of (toggle pe s)))) = isOpen s \<and>
   (returned (toggle pe s) \<longrightarrow>
      openChange (state_of (toggle pe s)) = openChange s @ [isOpen (state_of (toggle pe s))]) \<and>
   (wired s \<and> listening s \<longrightarrow> returned (toggle pe s))"
proof -
  have flip: "isOpen (state_of (toggle q t)) = (\<not> isOpen t)" for q t
    by (simp add: toggle_def isOpen_def opened_open_dropdown opened_close)
  have twice: "isOpen (state_of (toggle pe' (state_of (toggle pe s)))) = isOpen s"
    by (simp add: flip)
  have emits: "returned (toggle pe s) \<longrightarrow>
      openChange (state_of (toggle pe s)) = openChange s @ [isOpen (state_of (toggle pe s))]"
    by (simp add: flip) (simp add: toggle_def isOpen_def openChange_open_dropdown openChange_close)
  have returns: "wired s \<and> listening s \<longrightarrow> returned (toggle pe s)"
    by (simp add: toggle_def returned_open_dropdown returned_close)
  show ?thesis
    using flip [of pe s] twice emits returns by blast
qed

theorem toggle_is_a_transition_witness:
  "wired example_dropdown \<and> listening example_dropdown \<and>
   toggle example_positionElements example_dropdown = Done example_open \<and>
   isOpen example_open \<and> \<not> isOpen example_dropdown \<and>
   openChange example_open = openChange example_dropdown @ [True] \<and>
   \<not> isOpen (state_of (toggle example_positionElements example_open))"
proof -
  have h: "wired example_dropdown" "listening example_dropdown"
    by (simp_all add: wired_def listening_def example_defs)
  have c: "\<not> isOpen example_dropdown"
    by (simp add: isOpen_def example_defs)
  have t: "toggle example_positionElements example_dropdown = Done example_open"
    by (simp add: toggle_def isOpen_def example_open_def)
       (simp add: method_defs example_defs Let_def)
  from toggle_is_a_transition
         [of example_positionElements example_dropdown example_positionElements] h c t
  show ?thesis by simp
qed

text \<open>
  C10, as stated, fails. The example dropdown without an anchor is closed and
  has emitted nothing; \<open>toggle()\<close> sets \<open>_open\<close>, registers the listener and
  raises in \<open>_positionMenu\<close> on \<open>this._anchor.anchorEl\<close>, before the emission:
  \<open>isOpen()\<close> is negated and no notification is emitted.
\<close>

theorem toggle_without_anchor_counterexample:
  "\<not> isOpen example_no_anchor \<and>
   openChange example_no_anchor = [] \<and>
   isOpen (state_of (toggle example_positionElements example_no_anchor)) \<and>
   openChange (state_of (toggle example_positionElements example_no_anchor)) = [] \<and>
   \<not> returned (toggle example_positionElements example_no_anchor)"
  by (simp add: example_no_anchor_def method_defs example_defs Let_def)

section \<open>Re-placement\<close>

text \<open>
  C9. \<open>_positionMenu\<close>, called directly or through the zone subscription, never
  changes \<open>isOpen()\<close>. On a closed dropdown, and on one without a menu, it returns
  the state as it was, whatever \<open>positionElements\<close> would compute: the function
  is not run and nothing is written. In particular this is so on the state that
  \<open>close()\<close> leaves.
\<close>

theorem positionMenu_only_while_open:
  "isOpen (state_of (positionMenu pe s)) = isOpen s \<and>
   isOpen (state_of (onStable pe s)) = isOpen s \<and>
   (\<not> isOpen s \<or> menu s = None \<longrightarrow> positionMenu pe s = Done s \<and> onStable pe s = Done s) \<and>
   positionMenu pe (state_of (close s)) = Done (state_of (close s)) \<and>
   onStable pe (state_of (close s)) = Done (state_of (close s))"
proof -
  have a: "\<not> isOpen s \<or> menu s = None \<Longrightarrow> positionMenu pe s = Done s" for s
    by (auto simp: positionMenu_def)
  have b: "\<not> isOpen (state_of (close s))"
    by (simp add: isOpen_def opened_close)
  show ?thesis
    using a [of s] a [of "state_of (close s)"] b
    by (auto simp: isOpen_def onStable_def frames)
qed

theorem positionMenu_only_while_open_witness:
  "\<not> isOpen example_dropdown \<and>
   positionMenu example_positionElements example_dropdown = Done example_dropdown \<and>
   onStable example_positionElements example_dropdown = Done example_dropdown"
proof -
  have h: "\<not> isOpen example_dropdown"
    by (simp add: isOpen_def example_defs)
  from positionMenu_only_while_open [of example_positionElements example_dropdown] h
  show ?thesis by simp
qed

end
